theory Spec2Isabelle
  imports Complex_Main "HOL-Library.Char_ord" "HOL-Library.List_Lexorder"
begin

section \<open>Data model\<close>

text \<open>
  The program (\<^verbatim>\<open>spark_app.py\<close>) reads a Parquet dataset into a Spark DataFrame, applies
  optional filters, and prints statistics of one column, over all filtered rows
  (\<^verbatim>\<open>mode_filter\<close>) or per value of a grouping column (\<^verbatim>\<open>mode_group\<close>).

  A cell of a DataFrame is NULL, a number or a string. The datasets of this repository are
  written by \<^verbatim>\<open>parquet_converter.py\<close>, which reads a CSV file with pandas and no date
  parsing: the datetime columns arrive as strings, so the model has no separate timestamp
  value. Numbers are exact reals, and so are the statistics of the model; what the
  rounding of Spark's doubles does to the mean is treated apart (\<open>double_avg\<close> below).
  NaN and the infinities are not modelled.
\<close>

datatype val = Null | Num real | Str string

type_synonym row = "string \<Rightarrow> val"

datatype ctype = NumericType | StringType

record table =
  schema :: "(string \<times> ctype) list"
  rows :: "row list"

text \<open>\<^verbatim>\<open>df.columns\<close>: the column names, in schema order.\<close>

definition columns :: "table \<Rightarrow> string list" where
  "columns df = map fst (schema df)"

text \<open>
  The command line, as \<^verbatim>\<open>parse_args\<close> returns it. \<^verbatim>\<open>--mode\<close> has
  \<^verbatim>\<open>choices=["filter", "group"]\<close>, so the last branch of \<^verbatim>\<open>main\<close>
  (unknown mode) is unreachable. An option that was not given is \<^verbatim>\<open>None\<close>.
  The fields \<open>input_arg\<close>, \<open>end_arg\<close> and \<open>output_arg\<close> are the options
  \<^verbatim>\<open>--input\<close>, \<^verbatim>\<open>--end\<close> and \<^verbatim>\<open>--output\<close>.
\<close>

datatype mode_choice = FilterMode | GroupMode

record args =
  mode :: mode_choice
  input_arg :: string
  attribute :: string
  min_value :: "real option"
  max_value :: "real option"
  start :: "string option"
  end_arg :: "string option"
  group_by :: "string option"
  output_arg :: "string option"

text \<open>Python's truth value of an optional string: \<^verbatim>\<open>None\<close> and the empty string are false.\<close>

fun truthy :: "string option \<Rightarrow> bool" where
  "truthy None = False"
| "truthy (Some s) = (s \<noteq> [])"

datatype error = ValueError | AnalysisException

section \<open>The Spark operations the program calls\<close>

text \<open>
  Spark compares in three-valued logic: a comparison with NULL is NULL (here \<open>None\<close>).
  Two numbers compare as numbers, two strings byte by byte. Between a string and a number
  Spark casts the string to a number first; that cast is not part of this repository and
  is the parameter \<open>cast\<close> of the model (\<open>None\<close> where the string is not a number).
\<close>

fun spark_ge :: "(string \<Rightarrow> real option) \<Rightarrow> val \<Rightarrow> val \<Rightarrow> bool option" where
  "spark_ge cast (Num x) (Num y) = Some (y \<le> x)"
| "spark_ge cast (Str s) (Str t) = Some (t \<le> s)"
| "spark_ge cast (Str s) (Num y) = map_option (\<lambda>x. y \<le> x) (cast s)"
| "spark_ge cast (Num x) (Str t) = map_option (\<lambda>y. y \<le> x) (cast t)"
| "spark_ge cast _ _ = None"

fun spark_le :: "(string \<Rightarrow> real option) \<Rightarrow> val \<Rightarrow> val \<Rightarrow> bool option" where
  "spark_le cast (Num x) (Num y) = Some (x \<le> y)"
| "spark_le cast (Str s) (Str t) = Some (s \<le> t)"
| "spark_le cast (Str s) (Num y) = map_option (\<lambda>x. x \<le> y) (cast s)"
| "spark_le cast (Num x) (Str t) = map_option (\<lambda>y. x \<le> y) (cast t)"
| "spark_le cast _ _ = None"

text \<open>\<^verbatim>\<open>df.filter(cond)\<close> keeps the rows where the condition is true (not false, not NULL).\<close>

definition filter_df :: "(row \<Rightarrow> bool option) \<Rightarrow> table \<Rightarrow> table" where
  "filter_df cond df = df\<lparr>rows := filter (\<lambda>r. cond r = Some True) (rows df)\<rparr>"

text \<open>
  A column is named by a string. Spark reads a backtick in the name as a quote and a dot
  outside backticks as the separator of a nested reference, and it compares names
  without regard to the case of letters: the name denotes the one column that equals its
  single part up to case. A name it cannot read, a nested reference (the tables here have
  no nested columns), \<^verbatim>\<open>*\<close>, and a name that no column or more than one column
  matches are refused (\<^verbatim>\<open>AnalysisException\<close>). Letters are the ASCII letters here.
\<close>

definition lower_char :: "char \<Rightarrow> char" where
  "lower_char c =
     (case map_of (zip ''ABCDEFGHIJKLMNOPQRSTUVWXYZ'' ''abcdefghijklmnopqrstuvwxyz'') c of
        Some l \<Rightarrow> l
      | None \<Rightarrow> c)"

definition same_name :: "string \<Rightarrow> string \<Rightarrow> bool" where
  "same_name s t = (map lower_char s = map lower_char t)"

text \<open>
  The parts of a name as Spark splits it, character by character: \<open>quoted\<close> says
  whether a backtick is open, \<open>prev\<close> is the character before, \<open>part\<close> the part
  read so far. Inside backticks a doubled backtick stands for one; a closing backtick
  ends the name or is followed by a dot; a dot starts the next part.
\<close>

fun parse_name :: "bool \<Rightarrow> char option \<Rightarrow> string \<Rightarrow> string \<Rightarrow> string list option" where
  "parse_name quoted prev part [] = (if quoted then None else Some [part])"
| "parse_name quoted prev part (c # cs) =
     (if quoted then
        (if c = CHR 0x60 then
           (case cs of
              [] \<Rightarrow> parse_name False (Some c) part cs
            | d # ds \<Rightarrow>
                if d = CHR 0x60 then parse_name True (Some d) (part @ [d]) ds
                else if d \<noteq> CHR ''.'' then None
                else parse_name False (Some c) part cs)
         else parse_name True (Some c) (part @ [c]) cs)
      else if c = CHR 0x60 then
        (if part \<noteq> [] then None else parse_name True (Some c) part cs)
      else if c = CHR ''.'' then
        (if prev = None \<or> prev = Some (CHR ''.'') \<or> cs = [] then None
         else map_option ((#) part) (parse_name False (Some c) [] cs))
      else parse_name False (Some c) (part @ [c]) cs)"

definition spark_resolve :: "string list \<Rightarrow> string \<Rightarrow> string option" where
  "spark_resolve cols name =
     (if name = ''*'' then None
      else case parse_name False None [] name of
             Some [part] \<Rightarrow>
               (case filter (same_name part) cols of [c] \<Rightarrow> Some c | _ \<Rightarrow> None)
           | _ \<Rightarrow> None)"

text \<open>
  \<^verbatim>\<open>df.filter(F.col(name) >= ...)\<close>: the filter on the column \<open>name\<close>. It is built
  when Spark resolves the name to that column, and refused otherwise. (The program
  filters on the attribute only, which \<^verbatim>\<open>main\<close> has found among the columns as it is
  written.)
\<close>

definition filter_col ::
  "string \<Rightarrow> (val \<Rightarrow> bool option) \<Rightarrow> table \<Rightarrow> error + table" where
  "filter_col name cond df =
     (if spark_resolve (columns df) name = Some name
      then Inr (filter_df (\<lambda>r. cond (r name)) df)
      else Inl AnalysisException)"

text \<open>
  The aggregate functions skip NULL. \<^verbatim>\<open>F.min\<close> and \<^verbatim>\<open>F.max\<close> keep the column's
  own type and order (a column holds values of one type; the comparison of a number with
  a string below is never reached on such a column).
\<close>

fun val_less :: "val \<Rightarrow> val \<Rightarrow> bool" where
  "val_less (Num x) (Num y) = (x < y)"
| "val_less (Str s) (Str t) = (s < t)"
| "val_less _ _ = False"

definition min_step :: "val \<Rightarrow> val \<Rightarrow> val" where
  "min_step v m = (if v = Null then m else if m = Null then v else if val_less v m then v else m)"

definition max_step :: "val \<Rightarrow> val \<Rightarrow> val" where
  "max_step v m = (if v = Null then m else if m = Null then v else if val_less m v then v else m)"

definition spark_min :: "val list \<Rightarrow> val" where
  "spark_min vs = fold min_step vs Null"

definition spark_max :: "val list \<Rightarrow> val" where
  "spark_max vs = fold max_step vs Null"

text \<open>
  \<^verbatim>\<open>F.avg\<close> and \<^verbatim>\<open>F.stddev\<close> work on doubles: the inputs are cast, and a value
  that is NULL (or a string that is no number) is skipped.
\<close>

fun to_double :: "(string \<Rightarrow> real option) \<Rightarrow> val \<Rightarrow> real option" where
  "to_double cast Null = None"
| "to_double cast (Num x) = Some x"
| "to_double cast (Str s) = cast s"

definition doubles :: "(string \<Rightarrow> real option) \<Rightarrow> val list \<Rightarrow> real list" where
  "doubles cast vs = List.map_filter (to_double cast) vs"

text \<open>\<^verbatim>\<open>F.avg\<close>: the running sum over the running count, NULL when nothing was counted.\<close>

definition spark_avg :: "real list \<Rightarrow> real option" where
  "spark_avg xs = (if xs = [] then None else Some (sum_list xs / real (length xs)))"

text \<open>
  The mean as Spark computes it on a column of doubles: every addition to the running sum
  and the final division give the double nearest to the exact result, a tie going to
  the even significand. \<open>round_double\<close> rounds to 53 significant bits (doubles in
  the normal range: no overflow, no subnormal numbers); \<open>pow2 e\<close> is \<open>2\<close> to the
  power \<open>e\<close>.
\<close>

definition round_even :: "real \<Rightarrow> int" where
  "round_even x =
     (let f = \<lfloor>x\<rfloor>; d = x - of_int f
      in if d < 1 / 2 then f else if 1 / 2 < d then f + 1 else if even f then f else f + 1)"

definition pow2 :: "int \<Rightarrow> real" where
  "pow2 e = (if 0 \<le> e then 2 ^ nat e else 1 / 2 ^ nat (- e))"

definition round_double :: "real \<Rightarrow> real" where
  "round_double x =
     (if x = 0 then 0
      else (let e = \<lfloor>log 2 \<bar>x\<bar>\<rfloor> - 52
            in of_int (round_even (x / pow2 e)) * pow2 e))"

definition double_avg :: "real list \<Rightarrow> real option" where
  "double_avg xs =
     (if xs = [] then None
      else Some (round_double (fold (\<lambda>x s. round_double (s + x)) xs 0 / real (length xs))))"

text \<open>
  \<^verbatim>\<open>F.stddev\<close> is Spark's \<^verbatim>\<open>stddev_samp\<close>. Spark computes it in one pass, from a
  buffer \<open>(n, avg, m2)\<close> of the count, the running mean and the running sum of squared
  deviations, updated for every input; the result is \<open>sqrt (m2 / (n - 1))\<close>. With fewer
  than two inputs there is no result (NULL; not-a-number in Spark before 3.1): \<open>None\<close>.
\<close>

definition moments_update :: "real \<Rightarrow> nat \<times> real \<times> real \<Rightarrow> nat \<times> real \<times> real" where
  "moments_update x b =
     (case b of (n, avg, m2) \<Rightarrow>
        (let n' = n + 1;
             delta = x - avg;
             deltaN = delta / real n';
             avg' = avg + deltaN;
             m2' = m2 + delta * (delta - deltaN)
         in (n', avg', m2')))"

definition central_moments :: "real list \<Rightarrow> nat \<times> real \<times> real" where
  "central_moments xs = fold moments_update xs (0, 0, 0)"

definition spark_stddev :: "real list \<Rightarrow> real option" where
  "spark_stddev xs =
     (case central_moments xs of (n, avg, m2) \<Rightarrow>
        if n < 2 then None else Some (sqrt (m2 / (real n - 1))))"

section \<open>The program\<close>

subsection \<open>\<^verbatim>\<open>apply_filters\<close>\<close>

text \<open>
  The time window is applied only when the DataFrame has the column
  \<^verbatim>\<open>tpep_pickup_datetime\<close> and the bound is a non-empty string; the bound is passed to
  Spark as a string literal (\<^verbatim>\<open>F.lit(args.start)\<close>), unparsed. The bounds on the
  attribute are applied when they are not \<^verbatim>\<open>None\<close>.
\<close>

definition time_filters :: "(string \<Rightarrow> real option) \<Rightarrow> table \<Rightarrow> args \<Rightarrow> table" where
  "time_filters cast df a =
     (if ''tpep_pickup_datetime'' \<in> set (columns df) then
        (let df1 = (case start a of
                      Some s \<Rightarrow>
                        if s \<noteq> [] then
                          filter_df (\<lambda>r. spark_ge cast (r ''tpep_pickup_datetime'') (Str s)) df
                        else df
                    | None \<Rightarrow> df)
         in (case end_arg a of
               Some e \<Rightarrow>
                 if e \<noteq> [] then
                   filter_df (\<lambda>r. spark_le cast (r ''tpep_pickup_datetime'') (Str e)) df1
                 else df1
             | None \<Rightarrow> df1))
      else df)"

definition min_filter :: "(string \<Rightarrow> real option) \<Rightarrow> table \<Rightarrow> args \<Rightarrow> error + table" where
  "min_filter cast df a =
     (case min_value a of
        Some lo \<Rightarrow> filter_col (attribute a) (\<lambda>v. spark_ge cast v (Num lo)) df
      | None \<Rightarrow> Inr df)"

definition max_filter :: "(string \<Rightarrow> real option) \<Rightarrow> table \<Rightarrow> args \<Rightarrow> error + table" where
  "max_filter cast df a =
     (case max_value a of
        Some hi \<Rightarrow> filter_col (attribute a) (\<lambda>v. spark_le cast v (Num hi)) df
      | None \<Rightarrow> Inr df)"

definition apply_filters :: "(string \<Rightarrow> real option) \<Rightarrow> table \<Rightarrow> args \<Rightarrow> error + table" where
  "apply_filters cast df a =
     (case min_filter cast (time_filters cast df a) a of
        Inl e \<Rightarrow> Inl e
      | Inr df2 \<Rightarrow> max_filter cast df2 a)"

subsection \<open>The aggregation both modes share\<close>

text \<open>
  The four aggregates of \<^verbatim>\<open>mode_filter\<close> and \<^verbatim>\<open>mode_group\<close>, under their aliases
  \<^verbatim>\<open>min\<close>, \<^verbatim>\<open>max\<close>, \<^verbatim>\<open>avg\<close> and \<^verbatim>\<open>stddev\<close>, over the rows of one
  partition.
\<close>

record stats =
  s_min :: val
  s_max :: val
  s_avg :: "real option"
  s_stddev :: "real option"

definition agg_stats :: "(string \<Rightarrow> real option) \<Rightarrow> string \<Rightarrow> row list \<Rightarrow> stats" where
  "agg_stats cast attr rs =
     (let vs = map (\<lambda>r. r attr) rs
      in \<lparr>s_min = spark_min vs, s_max = spark_max vs,
          s_avg = spark_avg (doubles cast vs), s_stddev = spark_stddev (doubles cast vs)\<rparr>)"

subsection \<open>\<^verbatim>\<open>mode_filter\<close>\<close>

text \<open>
  What a run shows and leaves behind: the report is what the mode prints (the count of
  the filtered rows and, unless it returned early, the statistics; the first 50 rows of
  the grouped statistics), and the file system maps a path to the dataset stored there.
\<close>

record group_row = stats +
  g_key :: val
  g_count :: nat

datatype report = FilterReport nat "stats option" | GroupReport "group_row list"

type_synonym hdfs = "string \<Rightarrow> table option"

text \<open>
  \<^verbatim>\<open>if args.output: df.write.mode("overwrite").parquet(args.output)\<close>: the dataset
  replaces whatever the path held.
\<close>

definition write_output :: "string option \<Rightarrow> table \<Rightarrow> hdfs \<Rightarrow> hdfs" where
  "write_output out df fs =
     (case out of
        Some path \<Rightarrow> if path \<noteq> [] then fs(path \<mapsto> df) else fs
      | None \<Rightarrow> fs)"

text \<open>
  \<^verbatim>\<open>df_filtered.count()\<close> counts rows. With no row the function returns before the
  aggregation. \<^verbatim>\<open>F.min(attribute)\<close> and its siblings do not resolve on a DataFrame
  without the column.
\<close>

definition mode_filter ::
  "(string \<Rightarrow> real option) \<Rightarrow> hdfs \<Rightarrow> table \<Rightarrow> args \<Rightarrow> error + hdfs \<times> report" where
  "mode_filter cast fs df a =
     (case apply_filters cast df a of
        Inl e \<Rightarrow> Inl e
      | Inr df_filtered \<Rightarrow>
          (let count = length (rows df_filtered) in
           if count = 0 then Inr (fs, FilterReport count None)
           else if attribute a \<notin> set (columns df_filtered) then Inl AnalysisException
           else
             (let st = agg_stats cast (attribute a) (rows df_filtered)
              in Inr (write_output (output_arg a) df_filtered fs, FilterReport count (Some st)))))"

subsection \<open>\<^verbatim>\<open>mode_group\<close>\<close>

text \<open>
  \<^verbatim>\<open>groupBy(group_by)\<close> makes one partition per distinct value of the column, NULL
  included; \<^verbatim>\<open>F.count("*")\<close> counts the rows of the partition.
\<close>

definition group_keys :: "string \<Rightarrow> row list \<Rightarrow> val list" where
  "group_keys g rs = remdups (map (\<lambda>r. r g) rs)"

definition group_agg ::
  "(string \<Rightarrow> real option) \<Rightarrow> string \<Rightarrow> string \<Rightarrow> row list \<Rightarrow> group_row list" where
  "group_agg cast g attr rs =
     map (\<lambda>k. let part = filter (\<lambda>r. r g = k) rs
              in stats.extend (agg_stats cast attr part)
                   (group_row.fields k (length part)))
         (group_keys g rs)"

text \<open>
  \<^verbatim>\<open>orderBy(group_by)\<close> sorts ascending with NULL first. The keys of the groups are
  distinct, so the sorted sequence does not depend on the sorting algorithm; the model
  inserts one group after the other.
\<close>

fun key_le :: "val \<Rightarrow> val \<Rightarrow> bool" where
  "key_le Null _ = True"
| "key_le _ Null = False"
| "key_le (Num x) (Num y) = (x \<le> y)"
| "key_le (Str s) (Str t) = (s \<le> t)"
| "key_le (Num x) (Str t) = True"
| "key_le (Str s) (Num y) = False"

fun insert_group :: "group_row \<Rightarrow> group_row list \<Rightarrow> group_row list" where
  "insert_group x [] = [x]"
| "insert_group x (y # ys) =
     (if key_le (g_key x) (g_key y) then x # y # ys else y # insert_group x ys)"

definition order_by :: "group_row list \<Rightarrow> group_row list" where
  "order_by gs = foldr insert_group gs []"

text \<open>
  The grouped DataFrame has the grouping column and the five aggregates.
\<close>

definition agg_names :: "string list" where
  "agg_names = [''count'', ''min'', ''max'', ''avg'', ''stddev'']"

definition group_row_cells :: "string \<Rightarrow> group_row \<Rightarrow> row" where
  "group_row_cells g x =
     (\<lambda>c. if c = g then g_key x
          else if c = ''count'' then Num (real (g_count x))
          else if c = ''min'' then s_min x
          else if c = ''max'' then s_max x
          else if c = ''avg'' then (case s_avg x of Some m \<Rightarrow> Num m | None \<Rightarrow> Null)
          else if c = ''stddev'' then (case s_stddev x of Some d \<Rightarrow> Num d | None \<Rightarrow> Null)
          else Null)"

definition grouped_table :: "table \<Rightarrow> string \<Rightarrow> string \<Rightarrow> group_row list \<Rightarrow> table" where
  "grouped_table df g attr gs =
     \<lparr>schema =
        filter (\<lambda>(c, t). c = g) (schema df) @ [(''count'', NumericType)] @
        map (\<lambda>(c, t). (''min'', t)) (filter (\<lambda>(c, t). c = attr) (schema df)) @
        map (\<lambda>(c, t). (''max'', t)) (filter (\<lambda>(c, t). c = attr) (schema df)) @
        [(''avg'', NumericType), (''stddev'', NumericType)],
      rows = map (group_row_cells g) gs\<rparr>"

text \<open>
  The grouping column of \<^verbatim>\<open>groupBy(group_by)\<close>: a name that is one of the columns
  as it is written is that column; any other name is the column Spark resolves it to.
\<close>

definition resolve_group :: "string list \<Rightarrow> string \<Rightarrow> string option" where
  "resolve_group cols g = (if g \<in> set cols then Some g else spark_resolve cols g)"

text \<open>
  \<^verbatim>\<open>if not group_by\<close> raises for \<^verbatim>\<open>None\<close> and for the empty string. The grouping
  and the aggregates are refused by Spark when their column does not resolve.
  \<^verbatim>\<open>grouped.show(50)\<close> prints the first 50 groups; the whole grouped dataset is written.
  When the grouping column bears the name of one of the aggregates, the grouped
  DataFrame has two columns of that name: it is still sorted and shown, and only the
  write refuses it. An error ends the run; what was printed before it is not part of the
  result.
\<close>

definition mode_group ::
  "(string \<Rightarrow> real option) \<Rightarrow> hdfs \<Rightarrow> table \<Rightarrow> args \<Rightarrow> error + hdfs \<times> report" where
  "mode_group cast fs df a =
     (case group_by a of
        None \<Rightarrow> Inl ValueError
      | Some g \<Rightarrow>
          if g = [] then Inl ValueError
          else
            (case apply_filters cast df a of
               Inl e \<Rightarrow> Inl e
             | Inr df_filtered \<Rightarrow>
                 (case resolve_group (columns df_filtered) g of
                    None \<Rightarrow> Inl AnalysisException
                  | Some c \<Rightarrow>
                      if attribute a \<notin> set (columns df_filtered) then Inl AnalysisException
                      else
                        (let grouped =
                               order_by (group_agg cast c (attribute a) (rows df_filtered))
                         in if truthy (output_arg a) \<and> c \<in> set agg_names
                            then Inl AnalysisException
                            else Inr (write_output (output_arg a)
                                        (grouped_table df_filtered c (attribute a) grouped) fs,
                                      GroupReport (take 50 grouped))))))"

subsection \<open>\<^verbatim>\<open>main\<close>\<close>

text \<open>
  \<^verbatim>\<open>spark.read.parquet(args.input)\<close> is refused when the path holds no dataset. The one
  check of \<^verbatim>\<open>main\<close> is that the attribute is among the columns.
\<close>

definition main ::
  "(string \<Rightarrow> real option) \<Rightarrow> hdfs \<Rightarrow> args \<Rightarrow> error + hdfs \<times> report" where
  "main cast fs a =
     (case fs (input_arg a) of
        None \<Rightarrow> Inl AnalysisException
      | Some df \<Rightarrow>
          if attribute a \<notin> set (columns df) then Inl ValueError
          else (case mode a of
                  FilterMode \<Rightarrow> mode_filter cast fs df a
                | GroupMode \<Rightarrow> mode_group cast fs df a))"

section \<open>The tables of the examples\<close>

text \<open>The table of the specification's scenarios: three trips with an amount and a zone.\<close>

definition no_row :: row where
  "no_row = (\<lambda>c. Null)"

definition scenario_table :: table where
  "scenario_table =
     \<lparr>schema = [(''amt'', NumericType), (''zone'', StringType)],
      rows = [no_row(''amt'' := Num 10, ''zone'' := Str ''A''),
              no_row(''amt'' := Num 20, ''zone'' := Str ''A''),
              no_row(''amt'' := Num 5, ''zone'' := Str ''B'')]\<rparr>"

text \<open>No string is a number: the cast of the examples, whose strings are zones and dates.\<close>

definition no_number :: "string \<Rightarrow> real option" where
  "no_number s = None"

definition no_args :: args where
  "no_args =
     \<lparr>mode = FilterMode, input_arg = ''hdfs:///data/taxi'', attribute = ''amt'',
      min_value = None, max_value = None, start = None, end_arg = None,
      group_by = None, output_arg = None\<rparr>"

text \<open>The same table with a fourth trip, in zone C, whose amount is NULL.\<close>

definition null_table :: table where
  "null_table =
     \<lparr>schema = [(''amt'', NumericType), (''zone'', StringType)],
      rows = [no_row(''amt'' := Num 10, ''zone'' := Str ''A''),
              no_row(''amt'' := Num 20, ''zone'' := Str ''A''),
              no_row(''amt'' := Num 5, ''zone'' := Str ''B''),
              no_row(''zone'' := Str ''C'')]\<rparr>"

text \<open>
  One trip as \<^verbatim>\<open>parquet_converter.py\<close> stores it: the pickup time and the flag are
  strings, the distance is a number.
\<close>

definition taxi_table :: table where
  "taxi_table =
     \<lparr>schema = [(''tpep_pickup_datetime'', StringType), (''store_and_fwd_flag'', StringType),
                (''trip_distance'', NumericType)],
      rows = [no_row(''tpep_pickup_datetime'' := Str ''2016-01-01 00:00:00'',
                     ''store_and_fwd_flag'' := Str ''N'', ''trip_distance'' := Num 2)]\<rparr>"

text \<open>A file system that holds one dataset, at the default input path.\<close>

definition stored :: "table \<Rightarrow> hdfs" where
  "stored df = Map.empty(''hdfs:///data/taxi'' \<mapsto> df)"

text \<open>The same table with its amount column named \<^verbatim>\<open>count\<close>.\<close>

definition count_table :: table where
  "count_table =
     \<lparr>schema = [(''count'', NumericType), (''zone'', StringType)],
      rows = [no_row(''count'' := Num 10, ''zone'' := Str ''A''),
              no_row(''count'' := Num 20, ''zone'' := Str ''A''),
              no_row(''count'' := Num 5, ''zone'' := Str ''B'')]\<rparr>"

text \<open>
  Three trips whose amount is the double that the decimal \<^verbatim>\<open>0.1\<close> denotes,
  \<open>3602879701896397 / 2 ^ 55\<close>.
\<close>

definition one_tenth :: real where
  "one_tenth = 3602879701896397 / 2 ^ 55"

definition tenths_table :: table where
  "tenths_table =
     \<lparr>schema = [(''amt'', NumericType), (''zone'', StringType)],
      rows = [no_row(''amt'' := Num one_tenth, ''zone'' := Str ''A''),
              no_row(''amt'' := Num one_tenth, ''zone'' := Str ''A''),
              no_row(''amt'' := Num one_tenth, ''zone'' := Str ''A'')]\<rparr>"

section \<open>The rows a query selects\<close>

text \<open>
  The conditions of a query on one row, to compare \<^verbatim>\<open>apply_filters\<close> with. The
  time window counts only when the table has the column \<^verbatim>\<open>tpep_pickup_datetime\<close>;
  a bound of it is the string as it was given, and an empty bound is no bound.
\<close>

definition in_time_window :: "(string \<Rightarrow> real option) \<Rightarrow> table \<Rightarrow> args \<Rightarrow> row \<Rightarrow> bool" where
  "in_time_window cast df a r =
     (''tpep_pickup_datetime'' \<in> set (columns df) \<longrightarrow>
        (case start a of
           Some s \<Rightarrow> s \<noteq> [] \<longrightarrow> spark_ge cast (r ''tpep_pickup_datetime'') (Str s) = Some True
         | None \<Rightarrow> True) \<and>
        (case end_arg a of
           Some e \<Rightarrow> e \<noteq> [] \<longrightarrow> spark_le cast (r ''tpep_pickup_datetime'') (Str e) = Some True
         | None \<Rightarrow> True))"

definition in_bounds :: "(string \<Rightarrow> real option) \<Rightarrow> args \<Rightarrow> row \<Rightarrow> bool" where
  "in_bounds cast a r =
     ((case min_value a of
         Some lo \<Rightarrow> spark_ge cast (r (attribute a)) (Num lo) = Some True
       | None \<Rightarrow> True) \<and>
      (case max_value a of
         Some hi \<Rightarrow> spark_le cast (r (attribute a)) (Num hi) = Some True
       | None \<Rightarrow> True))"

section \<open>The mean without rounding\<close>

text \<open>
  The computation of \<open>double_avg\<close> is exact on a sequence when no addition to the
  running sum, started at \<open>s\<close>, and not the final division is rounded.
\<close>

fun exact_sums :: "real \<Rightarrow> real list \<Rightarrow> bool" where
  "exact_sums s [] = True"
| "exact_sums s (x # xs) = (round_double (s + x) = s + x \<and> exact_sums (s + x) xs)"

definition unrounded :: "real list \<Rightarrow> bool" where
  "unrounded xs =
     (exact_sums 0 xs \<and>
      round_double (sum_list xs / real (length xs)) = sum_list xs / real (length xs))"

section \<open>The sample standard deviation of the specification\<close>

text \<open>
  The specification's words, to compare \<^verbatim>\<open>F.stddev\<close> with: the sample standard
  deviation has the divisor \<open>count - 1\<close> and is undefined for \<open>count < 2\<close>.
\<close>

definition mean :: "real list \<Rightarrow> real" where
  "mean xs = sum_list xs / real (length xs)"

definition sq_dev :: "real list \<Rightarrow> real" where
  "sq_dev xs = (\<Sum>x\<leftarrow>xs. (x - mean xs)\<^sup>2)"

definition sample_stddev :: "real list \<Rightarrow> real option" where
  "sample_stddev xs =
     (if length xs < 2 then None else Some (sqrt (sq_dev xs / (real (length xs) - 1))))"

section \<open>Filters\<close>

lemmas filter_defs =
  apply_filters_def min_filter_def max_filter_def time_filters_def filter_col_def

lemmas name_defs =
  spark_resolve_def resolve_group_def same_name_def lower_char_def

lemma columns_filter_df [simp]: "columns (filter_df cond df) = columns df"
  by (simp add: filter_df_def columns_def)

lemma rows_filter_df [simp]:
  "rows (filter_df cond df) = filter (\<lambda>r. cond r = Some True) (rows df)"
  by (simp add: filter_df_def)

lemma columns_time_filters [simp]: "columns (time_filters cast df a) = columns df"
  by (simp add: time_filters_def Let_def split: option.splits)

lemma spark_ge_Null [simp]: "spark_ge cast Null v = None"
  by (cases v) simp_all

lemma spark_le_Null [simp]: "spark_le cast Null v = None"
  by (cases v) simp_all

text \<open>The filters keep the columns, and the one error they end in is Spark's.\<close>

lemma apply_filters_columns:
  assumes "apply_filters cast df a = Inr df'"
  shows "columns df' = columns df"
  using assms
  by (auto simp: apply_filters_def min_filter_def max_filter_def filter_col_def
      split: option.splits if_splits sum.splits)

lemma apply_filters_error:
  assumes "apply_filters cast df a = Inl e"
  shows "e = AnalysisException"
  using assms
  by (auto simp: apply_filters_def min_filter_def max_filter_def filter_col_def
      split: option.splits if_splits sum.splits)

text \<open>The time window alone, and the filters as a whole, keep the rows of the query.\<close>

lemma time_filters_rows:
  "time_filters cast df a = df\<lparr>rows := filter (in_time_window cast df a) (rows df)\<rparr>"
  by (cases "start a"; cases "end_arg a")
     (auto simp: time_filters_def in_time_window_def [abs_def] filter_df_def Let_def
       intro!: filter_cong)

lemma apply_filters_rows:
  assumes "apply_filters cast df a = Inr df'"
  shows "df' = df\<lparr>rows := filter (\<lambda>r. in_time_window cast df a r \<and> in_bounds cast a r) (rows df)\<rparr>"
  using assms unfolding apply_filters_def min_filter_def max_filter_def filter_col_def time_filters_rows
  by (cases "min_value a"; cases "max_value a")
     (auto simp: in_bounds_def [abs_def] filter_df_def split: if_splits sum.splits
       intro!: filter_cong)

text \<open>
  C7. Without \<^verbatim>\<open>min_value\<close>, \<^verbatim>\<open>max_value\<close>, \<^verbatim>\<open>start\<close> and \<^verbatim>\<open>end\<close>
  no filter is applied: \<^verbatim>\<open>apply_filters\<close> returns the table itself, with the same
  rows in the same order. (An empty \<^verbatim>\<open>start\<close> or \<^verbatim>\<open>end\<close> counts as absent, as
  Python's \<^verbatim>\<open>if args.start\<close> has it.)
\<close>

theorem apply_filters_no_options:
  assumes "min_value a = None" and "max_value a = None"
    and "\<not> truthy (start a)" and "\<not> truthy (end_arg a)"
  shows "apply_filters cast df a = Inr df"
  using assms
  by (cases "start a"; cases "end_arg a")
     (simp_all add: apply_filters_def min_filter_def max_filter_def time_filters_def)

theorem apply_filters_no_options_witness:
  "apply_filters no_number scenario_table no_args = Inr scenario_table"
  using apply_filters_no_options [of no_args no_number scenario_table]
  by (simp add: no_args_def)

text \<open>
  C9. When \<^verbatim>\<open>min_value\<close> or \<^verbatim>\<open>max_value\<close> is given, no row of the filtered
  DataFrame has NULL in the attribute column: the comparison of NULL with the bound is
  not true, so the bound's filter drops the row.
\<close>

theorem bounds_remove_null:
  assumes "apply_filters cast df a = Inr df'"
    and "min_value a \<noteq> None \<or> max_value a \<noteq> None"
  shows "\<forall>r \<in> set (rows df'). r (attribute a) \<noteq> Null"
  using assms
  by (auto simp: apply_filters_def min_filter_def max_filter_def filter_col_def
      split: option.splits if_splits)

theorem bounds_remove_null_witness:
  "apply_filters no_number null_table (no_args\<lparr>min_value := Some 0\<rparr>)
     = Inr (null_table\<lparr>rows := take 3 (rows null_table)\<rparr>) \<and>
   list_all (\<lambda>r. r ''amt'' \<noteq> Null) (take 3 (rows null_table))"
proof -
  have f: "apply_filters no_number null_table (no_args\<lparr>min_value := Some 0\<rparr>)
             = Inr (null_table\<lparr>rows := take 3 (rows null_table)\<rparr>)"
    by (simp add: filter_defs name_defs filter_df_def columns_def no_args_def null_table_def
        no_row_def)
  from bounds_remove_null [OF f] show ?thesis
    using f by (simp add: no_args_def list_all_iff)
qed

text \<open>
  C4 (as the code has it). A \<^verbatim>\<open>start\<close> or \<^verbatim>\<open>end\<close> string is never parsed. The
  filters that return keep exactly the rows of the query: within the bounds on the
  attribute and, when the table has the column \<^verbatim>\<open>tpep_pickup_datetime\<close>, with a
  pickup time that compares true with each non-empty bound, the bound being the string
  as it was given. Without bounds on the attribute the filters always return; and
  whether they return or are refused never depends on \<^verbatim>\<open>start\<close> and \<^verbatim>\<open>end\<close>.
\<close>

theorem time_bounds_compared_as_given:
  "(\<forall>df'. apply_filters cast df a = Inr df' \<longrightarrow>
      df' = df\<lparr>rows := filter (\<lambda>r. in_time_window cast df a r \<and> in_bounds cast a r) (rows df)\<rparr>) \<and>
   (min_value a = None \<and> max_value a = None \<longrightarrow>
      apply_filters cast df a = Inr (df\<lparr>rows := filter (in_time_window cast df a) (rows df)\<rparr>)) \<and>
   (\<forall>s e. isl (apply_filters cast df (a\<lparr>start := s, end_arg := e\<rparr>))
            = isl (apply_filters cast df a))"
proof -
  have one: "\<forall>df'. apply_filters cast df a = Inr df' \<longrightarrow>
      df' = df\<lparr>rows := filter (\<lambda>r. in_time_window cast df a r \<and> in_bounds cast a r) (rows df)\<rparr>"
    using apply_filters_rows by blast
  have two: "min_value a = None \<and> max_value a = None \<longrightarrow>
      apply_filters cast df a = Inr (df\<lparr>rows := filter (in_time_window cast df a) (rows df)\<rparr>)"
    by (simp add: apply_filters_def min_filter_def max_filter_def time_filters_rows)
  have three: "\<forall>s e. isl (apply_filters cast df (a\<lparr>start := s, end_arg := e\<rparr>))
            = isl (apply_filters cast df a)"
    by (auto simp: apply_filters_def min_filter_def max_filter_def filter_col_def
        split: option.splits sum.splits)
  from one two three show ?thesis by blast
qed

text \<open>
  C4 as the specification states it fails on its own scenario: with
  \<^verbatim>\<open>start = "not-a-date"\<close> the filters return normally; the one trip, picked up at
  \<^verbatim>\<open>2016-01-01 00:00:00\<close>, is dropped because that string sorts before the bound.
\<close>

theorem unparsed_start_counterexample:
  "apply_filters no_number taxi_table
     (no_args\<lparr>attribute := ''trip_distance'', start := Some ''not-a-date''\<rparr>)
     = Inr (taxi_table\<lparr>rows := []\<rparr>)"
  by (simp add: filter_defs filter_df_def columns_def no_args_def taxi_table_def no_row_def)

theorem time_bounds_compared_as_given_witness:
  "apply_filters no_number taxi_table
     (no_args\<lparr>attribute := ''trip_distance'', start := Some ''2017-01-01 00:00:00''\<rparr>)
     = Inr (taxi_table\<lparr>rows := []\<rparr>)"
proof -
  let ?a = "no_args\<lparr>attribute := ''trip_distance'', start := Some ''2017-01-01 00:00:00''\<rparr>"
  have b: "min_value ?a = None \<and> max_value ?a = None"
    by (simp add: no_args_def)
  have w: "filter (in_time_window no_number taxi_table ?a) (rows taxi_table) = []"
    by (simp add: in_time_window_def taxi_table_def columns_def no_row_def)
  from time_bounds_compared_as_given [of no_number taxi_table ?a] b
  have "apply_filters no_number taxi_table ?a
          = Inr (taxi_table\<lparr>rows := filter (in_time_window no_number taxi_table ?a) (rows taxi_table)\<rparr>)"
    by blast
  then show ?thesis by (simp only: w)
qed

section \<open>Checks and the early return\<close>

lemmas run_defs =
  main_def mode_filter_def mode_group_def filter_defs filter_df_def columns_def agg_stats_def
  spark_min_def spark_max_def min_step_def max_step_def doubles_def List.map_filter_def
  spark_avg_def spark_stddev_def central_moments_def moments_update_def write_output_def
  group_agg_def group_keys_def order_by_def agg_names_def Let_def stats.defs group_row.defs

lemmas example_defs =
  no_args_def scenario_table_def null_table_def taxi_table_def count_table_def tenths_table_def
  no_number_def no_row_def stored_def

text \<open>
  C1 (as the code has it). A run whose attribute is not among the columns, as it is
  written, fails with \<^verbatim>\<open>ValueError\<close> in \<^verbatim>\<open>main\<close>; a run in group mode without
  \<^verbatim>\<open>--group_by\<close> fails with \<^verbatim>\<open>ValueError\<close> in \<^verbatim>\<open>mode_group\<close>; a run in group
  mode whose grouping name Spark resolves to no column (no column equals it, not even up
  to the case of letters) is refused by Spark (\<^verbatim>\<open>AnalysisException\<close>). In all three
  cases the run ends with the error: nothing is reported and nothing is written. The
  type of the attribute column is checked nowhere.
\<close>

theorem main_checks:
  assumes "fs (input_arg a) = Some df"
    and "attribute a \<notin> set (columns df) \<or>
         (mode a = GroupMode \<and>
          (\<forall>g. group_by a = Some g \<longrightarrow> g = [] \<or> resolve_group (columns df) g = None))"
  shows "main cast fs a =
           Inl (if attribute a \<notin> set (columns df) \<or> \<not> truthy (group_by a)
                then ValueError else AnalysisException)"
proof (cases "attribute a \<in> set (columns df)")
  case False
  with assms(1) show ?thesis by (simp add: main_def)
next
  case True
  with assms(2) have grp: "mode a = GroupMode"
    and g: "\<forall>g. group_by a = Some g \<longrightarrow> g = [] \<or> resolve_group (columns df) g = None"
    by auto
  show ?thesis
  proof (cases "group_by a")
    case None
    with assms(1) True grp show ?thesis by (simp add: main_def mode_group_def)
  next
    case (Some g)
    with g have unresolved: "g = [] \<or> resolve_group (columns df) g = None" by simp
    show ?thesis
    proof (cases "apply_filters cast df a")
      case (Inl e)
      then have "e = AnalysisException" by (rule apply_filters_error)
      with assms(1) True grp Some Inl show ?thesis
        by (simp add: main_def mode_group_def)
    next
      case (Inr df')
      then have "columns df' = columns df" by (rule apply_filters_columns)
      with assms(1) True grp Some Inr unresolved show ?thesis
        by (auto simp: main_def mode_group_def)
    qed
  qed
qed

theorem main_checks_witness:
  "main no_number (stored scenario_table)
     (no_args\<lparr>mode := GroupMode, group_by := Some ''borough''\<rparr>)
     = Inl AnalysisException"
  using main_checks
    [of "stored scenario_table" "no_args\<lparr>mode := GroupMode, group_by := Some ''borough''\<rparr>"
      scenario_table no_number]
  by (simp add: stored_def no_args_def scenario_table_def columns_def name_defs)

text \<open>
  C1 as the specification states it fails where it asks for a numeric attribute: the
  column \<^verbatim>\<open>store_and_fwd_flag\<close> is a string column, and a run in filter mode over it
  passes the check of \<^verbatim>\<open>main\<close>, filters and counts the rows, and returns normally
  (here with no row left by the time window).
\<close>

theorem non_numeric_attribute_counterexample:
  "map_of (schema taxi_table) ''store_and_fwd_flag'' = Some StringType \<and>
   main no_number (stored taxi_table)
     (no_args\<lparr>attribute := ''store_and_fwd_flag'', start := Some ''2017-01-01 00:00:00''\<rparr>)
     = Inr (stored taxi_table, FilterReport 0 None)"
  by (simp add: main_def mode_filter_def filter_defs filter_df_def columns_def stored_def
      no_args_def taxi_table_def no_row_def)

text \<open>A grouping name in another case than the column's runs as the column's name does.\<close>

lemma group_by_other_case:
  "main no_number (stored scenario_table) (no_args\<lparr>mode := GroupMode, group_by := Some ''ZONE''\<rparr>)
     = main no_number (stored scenario_table) (no_args\<lparr>mode := GroupMode, group_by := Some ''zone''\<rparr>)"
  by (simp add: main_def mode_group_def apply_filters_def min_filter_def max_filter_def
      time_filters_def columns_def stored_def no_args_def scenario_table_def name_defs)




text \<open>
  With \<^verbatim>\<open>--output\<close> a run in group mode can end in an error although its query is
  valid: the write refuses a grouping column that bears the name of an aggregate.
\<close>

lemma write_refused_example:
  "main no_number (stored count_table)
     (no_args\<lparr>mode := GroupMode, attribute := ''count'', group_by := Some ''count'',
              output_arg := Some ''hdfs:///out''\<rparr>)
     = Inl AnalysisException"
  by (simp add: run_defs name_defs example_defs)

text \<open>
  C10. In filter mode, when no row is left, \<^verbatim>\<open>mode_filter\<close> returns before the
  aggregation and before the write: whatever \<^verbatim>\<open>--output\<close> is, the file system after
  the run is the file system before it.
\<close>

theorem mode_filter_no_rows:
  assumes "apply_filters cast df a = Inr df'" and "rows df' = []"
  shows "mode_filter cast fs df a = Inr (fs, FilterReport 0 None)"
  using assms by (simp add: mode_filter_def)

theorem mode_filter_no_rows_witness:
  "mode_filter no_number (stored taxi_table) taxi_table
     (no_args\<lparr>attribute := ''trip_distance'', start := Some ''2017-01-01 00:00:00'',
              output_arg := Some ''hdfs:///out''\<rparr>)
     = Inr (stored taxi_table, FilterReport 0 None)"
proof -
  have f: "apply_filters no_number taxi_table
             (no_args\<lparr>attribute := ''trip_distance'', start := Some ''2017-01-01 00:00:00'',
                      output_arg := Some ''hdfs:///out''\<rparr>)
             = Inr (taxi_table\<lparr>rows := []\<rparr>)"
    by (simp add: filter_defs filter_df_def columns_def no_args_def taxi_table_def no_row_def)
  show ?thesis
    by (rule mode_filter_no_rows [OF f]) simp
qed

section \<open>The standard deviation\<close>

text \<open>
  The buffer of the one-pass computation holds, after any inputs, their count, their mean
  and their sum of squared deviations from the mean.
\<close>

lemma sum_sq_shift:
  "(\<Sum>x\<leftarrow>xs. (x - c)\<^sup>2) = (\<Sum>x\<leftarrow>xs. x\<^sup>2) - 2 * c * sum_list xs + real (length xs) * c\<^sup>2"
  by (induction xs) (simp_all add: power2_eq_square algebra_simps)

lemma sq_dev_alt:
  "sq_dev xs = (\<Sum>x\<leftarrow>xs. x\<^sup>2) - (sum_list xs)\<^sup>2 / real (length xs)"
proof (cases "xs = []")
  case True
  then show ?thesis by (simp add: sq_dev_def)
next
  case False
  then have n: "real (length xs) \<noteq> 0" by simp
  show ?thesis
    unfolding sq_dev_def mean_def sum_sq_shift using n
    by (simp add: power2_eq_square field_simps)
qed

lemma mean_step:
  fixes n S x :: real
  assumes "0 < n"
  shows "S / n + (x - S / n) / (n + 1) = (S + x) / (n + 1)"
proof -
  define m where "m = n + 1"
  have nz: "n \<noteq> 0" "m \<noteq> 0" using assms by (simp_all add: m_def)
  have "S / n + (x - S / n) / m = (S + x) / m"
    using nz by (simp add: field_simps) (simp add: m_def algebra_simps)
  then show ?thesis by (simp add: m_def)
qed

lemma sq_dev_step:
  fixes n S Q x :: real
  assumes "0 < n"
  shows "(Q - S\<^sup>2 / n) + (x - S / n) * (x - S / n - (x - S / n) / (n + 1))
           = (Q + x\<^sup>2) - (S + x)\<^sup>2 / (n + 1)"
proof -
  define m where "m = n + 1"
  have nz: "n \<noteq> 0" "m \<noteq> 0" using assms by (simp_all add: m_def)
  have "(Q - S\<^sup>2 / n) + (x - S / n) * (x - S / n - (x - S / n) / m)
           = (Q + x\<^sup>2) - (S + x)\<^sup>2 / m"
    using nz by (simp add: power2_eq_square field_simps) (simp add: m_def algebra_simps)
  then show ?thesis by (simp add: m_def)
qed

lemma moments_update_step:
  "moments_update x (length ys, mean ys, sq_dev ys)
     = (length (ys @ [x]), mean (ys @ [x]), sq_dev (ys @ [x]))"
proof (cases "ys = []")
  case True
  then show ?thesis
    by (simp add: moments_update_def mean_def sq_dev_def)
next
  case False
  then have n: "0 < real (length ys)" by simp
  have m: "mean ys + (x - mean ys) / (real (length ys) + 1) = mean (ys @ [x])"
    using mean_step [OF n, of "sum_list ys" x] by (simp add: mean_def)
  have d: "sq_dev ys + (x - mean ys) * (x - mean ys - (x - mean ys) / (real (length ys) + 1))
             = sq_dev (ys @ [x])"
    using sq_dev_step [OF n, of "\<Sum>y\<leftarrow>ys. y\<^sup>2" "sum_list ys" x]
    by (simp add: sq_dev_alt mean_def)
  show ?thesis
    using m d by (simp add: moments_update_def Let_def add.commute)
qed

lemma fold_moments_update:
  "fold moments_update xs (length ys, mean ys, sq_dev ys)
     = (length (ys @ xs), mean (ys @ xs), sq_dev (ys @ xs))"
proof (induction xs arbitrary: ys)
  case Nil
  show ?case by simp
next
  case (Cons x xs)
  have "fold moments_update (x # xs) (length ys, mean ys, sq_dev ys)
          = fold moments_update xs (length (ys @ [x]), mean (ys @ [x]), sq_dev (ys @ [x]))"
    by (simp only: fold_simps moments_update_step)
  also have "\<dots> = (length ((ys @ [x]) @ xs), mean ((ys @ [x]) @ xs), sq_dev ((ys @ [x]) @ xs))"
    by (rule Cons.IH)
  finally show ?case by simp
qed

lemma central_moments_eq: "central_moments xs = (length xs, mean xs, sq_dev xs)"
  using fold_moments_update [of xs "[]"]
  by (simp add: central_moments_def mean_def sq_dev_def)

lemma spark_stddev_sample: "spark_stddev xs = sample_stddev xs"
  by (simp add: spark_stddev_def central_moments_eq sample_stddev_def)

text \<open>
  C6. The standard deviation of a partition, as \<^verbatim>\<open>F.stddev\<close> computes it in one
  pass, is the sample standard deviation of the attribute's non-NULL values: the root of
  the sum of squared deviations from the mean over \<open>count - 1\<close>, and no value (NULL)
  when fewer than two values were counted.
\<close>

theorem stddev_is_sample_stddev:
  "s_stddev (agg_stats cast attr rs) = sample_stddev (doubles cast (map (\<lambda>r. r attr) rs))"
  by (simp add: agg_stats_def Let_def spark_stddev_sample)



theorem stddev_is_sample_stddev_witness:
  "s_stddev (agg_stats no_number ''amt'' (rows scenario_table)) = Some (sqrt (175 / 3)) \<and>
   s_stddev (agg_stats no_number ''amt'' [no_row(''amt'' := Num 5)]) = None"
proof -
  have d3: "doubles no_number (map (\<lambda>r. r ''amt'') (rows scenario_table)) = [10, 20, 5]"
    by (simp add: doubles_def List.map_filter_def scenario_table_def no_row_def)
  have d1: "doubles no_number (map (\<lambda>r. r ''amt'') [no_row(''amt'' := Num 5)]) = [5]"
    by (simp add: doubles_def List.map_filter_def no_row_def)
  have s3: "sample_stddev [10, 20, 5] = Some (sqrt (175 / 3))"
    by (simp add: sample_stddev_def sq_dev_def mean_def power2_eq_square)
  have s1: "sample_stddev [5] = None"
    by (simp add: sample_stddev_def)
  show ?thesis
    using stddev_is_sample_stddev [of no_number "''amt''" "rows scenario_table"]
      stddev_is_sample_stddev [of no_number "''amt''" "[no_row(''amt'' := Num 5)]"]
    by (simp only: d3 d1 s3 s1)
qed

section \<open>Minimum, maximum and mean\<close>

lemma doubles_Nil [simp]: "doubles cast [] = []"
  by (simp add: doubles_def List.map_filter_def)

lemma doubles_Cons_Null [simp]: "doubles cast (Null # vs) = doubles cast vs"
  by (simp add: doubles_def List.map_filter_def)

lemma doubles_Cons_Num [simp]: "doubles cast (Num x # vs) = x # doubles cast vs"
  by (simp add: doubles_def List.map_filter_def)

lemma fold_min_step_Null_iff:
  "fold min_step vs m = Null \<longleftrightarrow> m = Null \<and> (\<forall>v \<in> set vs. v = Null)"
  by (induction vs arbitrary: m) (auto simp: min_step_def)

lemma fold_max_step_Null_iff:
  "fold max_step vs m = Null \<longleftrightarrow> m = Null \<and> (\<forall>v \<in> set vs. v = Null)"
  by (induction vs arbitrary: m) (auto simp: max_step_def)

lemma fold_min_step_Num:
  assumes "\<forall>v \<in> set vs. \<forall>s. v \<noteq> Str s"
  shows "\<exists>m'. fold min_step vs (Num m) = Num m' \<and> m' \<le> m \<and> (\<forall>x \<in> set (doubles cast vs). m' \<le> x)"
  using assms
proof (induction vs arbitrary: m)
  case Nil
  show ?case by simp
next
  case (Cons v vs)
  then have rest: "\<forall>v \<in> set vs. \<forall>s. v \<noteq> Str s" by simp
  show ?case
  proof (cases v)
    case Null
    with Cons.IH [OF rest, of m] show ?thesis by (simp add: min_step_def)
  next
    case (Num x)
    have step: "min_step (Num x) (Num m) = Num (min x m)"
      by (simp add: min_step_def min_def)
    from Cons.IH [OF rest, of "min x m"] obtain m' where
      "fold min_step vs (Num (min x m)) = Num m'" "m' \<le> min x m"
      "\<forall>y \<in> set (doubles cast vs). m' \<le> y" by blast
    with Num step show ?thesis by auto
  next
    case (Str s)
    with Cons.prems show ?thesis by simp
  qed
qed

lemma fold_max_step_Num:
  assumes "\<forall>v \<in> set vs. \<forall>s. v \<noteq> Str s"
  shows "\<exists>m'. fold max_step vs (Num m) = Num m' \<and> m \<le> m' \<and> (\<forall>x \<in> set (doubles cast vs). x \<le> m')"
  using assms
proof (induction vs arbitrary: m)
  case Nil
  show ?case by simp
next
  case (Cons v vs)
  then have rest: "\<forall>v \<in> set vs. \<forall>s. v \<noteq> Str s" by simp
  show ?case
  proof (cases v)
    case Null
    with Cons.IH [OF rest, of m] show ?thesis by (simp add: max_step_def)
  next
    case (Num x)
    have step: "max_step (Num x) (Num m) = Num (max x m)"
      by (simp add: max_step_def max_def)
    from Cons.IH [OF rest, of "max x m"] obtain m' where
      "fold max_step vs (Num (max x m)) = Num m'" "max x m \<le> m'"
      "\<forall>y \<in> set (doubles cast vs). y \<le> m'" by blast
    with Num step show ?thesis by auto
  next
    case (Str s)
    with Cons.prems show ?thesis by simp
  qed
qed

lemma spark_min_numeric:
  assumes "\<forall>v \<in> set vs. \<forall>s. v \<noteq> Str s" and "\<exists>v \<in> set vs. v \<noteq> Null"
  shows "\<exists>m. spark_min vs = Num m \<and> (\<forall>x \<in> set (doubles cast vs). m \<le> x)"
  using assms unfolding spark_min_def
proof (induction vs)
  case Nil
  then show ?case by simp
next
  case (Cons v vs)
  then have rest: "\<forall>v \<in> set vs. \<forall>s. v \<noteq> Str s" by simp
  show ?case
  proof (cases v)
    case Null
    with Cons show ?thesis by (simp add: min_step_def)
  next
    case (Num x)
    have "min_step (Num x) Null = Num x" by (simp add: min_step_def)
    with fold_min_step_Num [OF rest, of x cast] Num show ?thesis
      by auto
  next
    case (Str s)
    with Cons.prems show ?thesis by simp
  qed
qed

lemma spark_max_numeric:
  assumes "\<forall>v \<in> set vs. \<forall>s. v \<noteq> Str s" and "\<exists>v \<in> set vs. v \<noteq> Null"
  shows "\<exists>m. spark_max vs = Num m \<and> (\<forall>x \<in> set (doubles cast vs). x \<le> m)"
  using assms unfolding spark_max_def
proof (induction vs)
  case Nil
  then show ?case by simp
next
  case (Cons v vs)
  then have rest: "\<forall>v \<in> set vs. \<forall>s. v \<noteq> Str s" by simp
  show ?case
  proof (cases v)
    case Null
    with Cons show ?thesis by (simp add: max_step_def)
  next
    case (Num x)
    have "max_step (Num x) Null = Num x" by (simp add: max_step_def)
    with fold_max_step_Num [OF rest, of x cast] Num show ?thesis
      by auto
  next
    case (Str s)
    with Cons.prems show ?thesis by simp
  qed
qed

lemma doubles_numeric_nonempty:
  assumes "\<forall>v \<in> set vs. \<forall>s. v \<noteq> Str s" and "\<exists>v \<in> set vs. v \<noteq> Null"
  shows "doubles cast vs \<noteq> []"
  using assms
proof (induction vs)
  case Nil
  then show ?case by simp
next
  case (Cons v vs)
  then show ?case by (cases v) auto
qed

lemma sum_list_lower:
  fixes xs :: "real list"
  assumes "\<forall>x \<in> set xs. m \<le> x"
  shows "m * real (length xs) \<le> sum_list xs"
  using assms by (induction xs) (simp_all add: algebra_simps)

lemma sum_list_upper:
  fixes xs :: "real list"
  assumes "\<forall>x \<in> set xs. x \<le> m"
  shows "sum_list xs \<le> m * real (length xs)"
  using assms by (induction xs) (simp_all add: algebra_simps)

lemma mean_bounds:
  fixes xs :: "real list"
  assumes "xs \<noteq> []" and "\<forall>x \<in> set xs. lo \<le> x" and "\<forall>x \<in> set xs. x \<le> hi"
  shows "lo \<le> sum_list xs / real (length xs) \<and> sum_list xs / real (length xs) \<le> hi"
proof -
  from assms(1) have n: "0 < real (length xs)" by simp
  from sum_list_lower [OF assms(2)] sum_list_upper [OF assms(3)] n
  show ?thesis by (simp add: pos_le_divide_eq pos_divide_le_eq)
qed

lemma sq_dev_nonneg: "0 \<le> sq_dev xs"
  unfolding sq_dev_def by (rule sum_list_nonneg) auto

lemma sample_stddev_nonneg:
  assumes "sample_stddev xs = Some d"
  shows "0 \<le> d"
proof -
  from assms have n: "2 \<le> length xs" and d: "d = sqrt (sq_dev xs / (real (length xs) - 1))"
    by (auto simp: sample_stddev_def split: if_splits)
  from n have "0 < real (length xs) - 1" by simp
  with sq_dev_nonneg [of xs] have "0 \<le> sq_dev xs / (real (length xs) - 1)" by simp
  with d show ?thesis by simp
qed

text \<open>
  The mean in doubles. Rounding to a double is decided by the binary exponent of the
  number, and a computation of \<open>double_avg\<close> in which nothing is rounded gives the
  exact mean.
\<close>

lemma pow2_powr: "pow2 e = 2 powr of_int e"
  by (simp add: pow2_def powr_int)

lemma round_double_at:
  assumes "pow2 k \<le> \<bar>x\<bar>" and "\<bar>x\<bar> < pow2 (k + 1)"
  shows "round_double x = of_int (round_even (x / pow2 (k - 52))) * pow2 (k - 52)"
proof -
  have "0 < pow2 k" by (simp add: pow2_def)
  with assms(1) have pos: "0 < \<bar>x\<bar>" by linarith
  then have "\<lfloor>log 2 \<bar>x\<bar>\<rfloor> = k"
    using assms by (simp add: floor_log_eq_powr_iff pow2_powr add.commute)
  with pos show ?thesis by (auto simp: round_double_def Let_def)
qed

lemma fold_exact_sums:
  assumes "exact_sums s xs"
  shows "fold (\<lambda>x s. round_double (s + x)) xs s = s + sum_list xs"
  using assms by (induction xs arbitrary: s) (simp_all add: add.assoc)

lemma double_avg_unrounded:
  assumes "unrounded xs"
  shows "double_avg xs = spark_avg xs"
  using assms fold_exact_sums [of 0 xs]
  by (simp add: unrounded_def double_avg_def spark_avg_def)

lemma round_double_tenth: "round_double (1 / 10) = one_tenth"
  by (subst round_double_at [of "-4"])
     (simp_all add: pow2_def one_tenth_def round_even_def Let_def)

lemma round_double_two_tenths: "round_double (one_tenth + one_tenth) = 2 * one_tenth"
  by (subst round_double_at [of "-3"])
     (simp_all add: pow2_def one_tenth_def round_even_def Let_def)

lemma round_double_three_tenths:
  "round_double (2 * one_tenth + one_tenth) = 5404319552844596 / 2 ^ 54"
  by (subst round_double_at [of "-2"])
     (simp_all add: pow2_def one_tenth_def round_even_def Let_def)

lemma round_double_third:
  "round_double (5404319552844596 / 2 ^ 54 / 3) = one_tenth + 1 / 2 ^ 56"
  by (subst round_double_at [of "-4"])
     (simp_all add: pow2_def one_tenth_def round_even_def Let_def)

lemma round_double_10: "round_double 10 = 10"
  by (subst round_double_at [of 3]) (simp_all add: pow2_def round_even_def Let_def)

lemma round_double_30: "round_double 30 = 30"
  by (subst round_double_at [of 4]) (simp_all add: pow2_def round_even_def Let_def)

lemma round_double_15: "round_double 15 = 15"
  by (subst round_double_at [of 3]) (simp_all add: pow2_def round_even_def Let_def)

lemma double_avg_tenths:
  "double_avg [one_tenth, one_tenth, one_tenth] = Some (one_tenth + 1 / 2 ^ 56)"
proof -
  have z: "round_double (0 + one_tenth) = one_tenth"
    using round_double_tenth
    by (subst round_double_at [of "-4"])
       (simp_all add: pow2_def one_tenth_def round_even_def Let_def)
  have "fold (\<lambda>x s. round_double (s + x)) [one_tenth, one_tenth, one_tenth] 0
          = 5404319552844596 / 2 ^ 54"
    by (simp only: fold_simps id_apply comp_apply z round_double_two_tenths
        round_double_three_tenths)
  moreover have "real (length [one_tenth, one_tenth, one_tenth]) = 3" by simp
  moreover have "[one_tenth, one_tenth, one_tenth] \<noteq> []" by simp
  ultimately show ?thesis
    by (simp only: double_avg_def if_False round_double_third)
qed

text \<open>
  C8 (as the code has it). Over the rows of a partition whose attribute column is numeric
  and holds at least one number, the minimum and the maximum are numbers, the mean taken
  in exact arithmetic lies between them, \<open>min \<le> mean \<le> max\<close>, and the standard
  deviation, where it has a value, is not negative. The mean that Spark computes in
  doubles is this mean, and so within the bounds, whenever no addition to the running sum
  and not the final division is rounded.
\<close>

theorem stats_bounds:
  assumes "\<forall>r \<in> set rs. \<forall>s. r attr \<noteq> Str s" and "\<exists>r \<in> set rs. r attr \<noteq> Null"
  shows "\<exists>lo hi mu.
           s_min (agg_stats cast attr rs) = Num lo \<and>
           s_max (agg_stats cast attr rs) = Num hi \<and>
           s_avg (agg_stats cast attr rs) = Some mu \<and>
           lo \<le> mu \<and> mu \<le> hi \<and>
           (\<forall>d. s_stddev (agg_stats cast attr rs) = Some d \<longrightarrow> 0 \<le> d) \<and>
           (unrounded (doubles cast (map (\<lambda>r. r attr) rs)) \<longrightarrow>
              double_avg (doubles cast (map (\<lambda>r. r attr) rs)) = Some mu)"
proof -
  let ?vs = "map (\<lambda>r. r attr) rs"
  let ?xs = "doubles cast ?vs"
  from assms have num: "\<forall>v \<in> set ?vs. \<forall>s. v \<noteq> Str s" and some: "\<exists>v \<in> set ?vs. v \<noteq> Null"
    by auto
  from spark_min_numeric [OF num some, of cast] obtain lo where
    lo: "spark_min ?vs = Num lo" "\<forall>x \<in> set ?xs. lo \<le> x" by blast
  from spark_max_numeric [OF num some, of cast] obtain hi where
    hi: "spark_max ?vs = Num hi" "\<forall>x \<in> set ?xs. x \<le> hi" by blast
  have ne: "?xs \<noteq> []" by (rule doubles_numeric_nonempty [OF num some])
  from mean_bounds [OF ne lo(2) hi(2)]
  have mu: "lo \<le> sum_list ?xs / real (length ?xs)" "sum_list ?xs / real (length ?xs) \<le> hi"
    by simp_all
  have sd: "\<forall>d. spark_stddev ?xs = Some d \<longrightarrow> 0 \<le> d"
    by (simp add: spark_stddev_sample sample_stddev_nonneg)
  have da: "unrounded ?xs \<longrightarrow> double_avg ?xs = Some (sum_list ?xs / real (length ?xs))"
    using ne by (simp add: double_avg_unrounded spark_avg_def)
  show ?thesis
    using lo(1) hi(1) ne mu sd da
    by (simp add: agg_stats_def Let_def spark_avg_def)
qed

theorem stats_bounds_witness:
  "s_min (agg_stats no_number ''amt'' (take 2 (rows scenario_table))) = Num 10 \<and>
   s_max (agg_stats no_number ''amt'' (take 2 (rows scenario_table))) = Num 20 \<and>
   s_avg (agg_stats no_number ''amt'' (take 2 (rows scenario_table))) = Some 15 \<and>
   double_avg (doubles no_number (map (\<lambda>r. r ''amt'') (take 2 (rows scenario_table)))) = Some 15"
proof -
  let ?rs = "take 2 (rows scenario_table)"
  have d: "doubles no_number (map (\<lambda>r. r ''amt'') ?rs) = [10, 20]"
    by (simp add: scenario_table_def no_row_def)
  have u: "unrounded [10, 20]"
    by (simp add: unrounded_def round_double_10 round_double_30 round_double_15)
  have st: "s_min (agg_stats no_number ''amt'' ?rs) = Num 10"
    "s_max (agg_stats no_number ''amt'' ?rs) = Num 20"
    "s_avg (agg_stats no_number ''amt'' ?rs) = Some 15"
    by (simp_all add: agg_stats_def d spark_avg_def spark_min_def spark_max_def min_step_def
        max_step_def scenario_table_def no_row_def)
  have h1: "\<forall>r \<in> set ?rs. \<forall>s. r ''amt'' \<noteq> Str s"
    by (simp add: scenario_table_def no_row_def)
  have h2: "\<exists>r \<in> set ?rs. r ''amt'' \<noteq> Null"
    by (simp add: scenario_table_def no_row_def)
  from stats_bounds [OF h1 h2, of no_number] u st
  have "double_avg (doubles no_number (map (\<lambda>r. r ''amt'') ?rs)) = Some 15"
    by (auto simp: d)
  with st show ?thesis by simp
qed

text \<open>
  C8 as the specification states it fails for the mean in doubles: of three amounts that
  are the double \<^verbatim>\<open>0.1\<close>, the minimum and the maximum are that double, and the mean
  Spark computes, \<^verbatim>\<open>(0.1 + 0.1 + 0.1) / 3\<close>, is the next double above it.
\<close>

theorem double_mean_counterexample:
  "round_double (1 / 10) = one_tenth \<and>
   s_min (agg_stats no_number ''amt'' (rows tenths_table)) = Num one_tenth \<and>
   s_max (agg_stats no_number ''amt'' (rows tenths_table)) = Num one_tenth \<and>
   double_avg (doubles no_number (map (\<lambda>r. r ''amt'') (rows tenths_table)))
     = Some (one_tenth + 1 / 2 ^ 56) \<and>
   one_tenth < one_tenth + 1 / 2 ^ 56"
proof -
  have d: "doubles no_number (map (\<lambda>r. r ''amt'') (rows tenths_table))
             = [one_tenth, one_tenth, one_tenth]"
    by (simp add: tenths_table_def no_row_def)
  have m: "s_min (agg_stats no_number ''amt'' (rows tenths_table)) = Num one_tenth"
    "s_max (agg_stats no_number ''amt'' (rows tenths_table)) = Num one_tenth"
    by (simp_all add: agg_stats_def spark_min_def spark_max_def min_step_def max_step_def
        tenths_table_def no_row_def)
  show ?thesis
    using round_double_tenth m double_avg_tenths by (simp add: d)
qed

section \<open>NULL in the attribute column\<close>

lemma length_doubles_numeric:
  assumes "\<forall>v \<in> set vs. \<forall>s. v \<noteq> Str s"
  shows "length (doubles cast vs) = length (filter (\<lambda>v. v \<noteq> Null) vs)"
  using assms
proof (induction vs)
  case Nil
  show ?case by simp
next
  case (Cons v vs)
  then show ?case by (cases v) simp_all
qed

lemma spark_stddev_None_iff: "spark_stddev xs = None \<longleftrightarrow> length xs < 2"
  by (simp add: spark_stddev_sample sample_stddev_def)

text \<open>
  C2 (as the code has it). Whether a statistic of a partition is NULL depends on how many
  rows of the partition have a non-NULL attribute, not on the partition's row count:
  over a numeric column, \<^verbatim>\<open>min\<close>, \<^verbatim>\<open>max\<close> and \<^verbatim>\<open>avg\<close> are NULL exactly when
  no row has a value, and \<^verbatim>\<open>stddev\<close> exactly when fewer than two rows have one.
\<close>

theorem stats_null_iff:
  assumes "\<forall>r \<in> set rs. \<forall>s. r attr \<noteq> Str s"
  shows "(s_min (agg_stats cast attr rs) = Null \<longleftrightarrow> length (filter (\<lambda>r. r attr \<noteq> Null) rs) = 0) \<and>
         (s_max (agg_stats cast attr rs) = Null \<longleftrightarrow> length (filter (\<lambda>r. r attr \<noteq> Null) rs) = 0) \<and>
         (s_avg (agg_stats cast attr rs) = None \<longleftrightarrow> length (filter (\<lambda>r. r attr \<noteq> Null) rs) = 0) \<and>
         (s_stddev (agg_stats cast attr rs) = None \<longleftrightarrow> length (filter (\<lambda>r. r attr \<noteq> Null) rs) < 2)"
proof -
  let ?vs = "map (\<lambda>r. r attr) rs"
  from assms have num: "\<forall>v \<in> set ?vs. \<forall>s. v \<noteq> Str s" by auto
  have len: "length (doubles cast ?vs) = length (filter (\<lambda>r. r attr \<noteq> Null) rs)"
    using length_doubles_numeric [OF num, of cast] by (simp add: filter_map comp_def)
  have e: "doubles cast ?vs = [] \<longleftrightarrow> length (filter (\<lambda>r. r attr \<noteq> Null) rs) = 0"
    using len by (metis length_0_conv)
  show ?thesis
    using len e
    by (simp add: agg_stats_def Let_def spark_min_def spark_max_def fold_min_step_Null_iff
        fold_max_step_Null_iff spark_avg_def spark_stddev_None_iff filter_empty_conv)
qed

theorem stats_null_iff_witness:
  "s_min (agg_stats no_number ''amt'' [no_row(''zone'' := Str ''C'')]) = Null \<and>
   s_max (agg_stats no_number ''amt'' [no_row(''zone'' := Str ''C'')]) = Null \<and>
   s_avg (agg_stats no_number ''amt'' [no_row(''zone'' := Str ''C'')]) = None \<and>
   s_stddev (agg_stats no_number ''amt'' [no_row(''zone'' := Str ''C'')]) = None"
  using stats_null_iff [of "[no_row(''zone'' := Str ''C'')]" "''amt''" no_number]
  by (simp add: no_row_def)

text \<open>
  C2 as the specification states it fails in group mode on the table with the NULL
  amount: the group of zone C has the count 1 and all four statistics NULL, and the group
  of zone B has the count 1 and no standard deviation.
\<close>

theorem null_group_counterexample:
  "main no_number (stored null_table) (no_args\<lparr>mode := GroupMode, group_by := Some ''zone''\<rparr>)
     = Inr (stored null_table, GroupReport
         [\<lparr>s_min = Num 10, s_max = Num 20, s_avg = Some 15, s_stddev = Some (sqrt 50),
           g_key = Str ''A'', g_count = 2\<rparr>,
          \<lparr>s_min = Num 5, s_max = Num 5, s_avg = Some 5, s_stddev = None,
           g_key = Str ''B'', g_count = 1\<rparr>,
          \<lparr>s_min = Null, s_max = Null, s_avg = None, s_stddev = None,
           g_key = Str ''C'', g_count = 1\<rparr>])"
  by (simp add: run_defs name_defs example_defs)

lemma fold_min_step_skip_null:
  "fold min_step (filter (\<lambda>v. v \<noteq> Null) vs) m = fold min_step vs m"
  by (induction vs arbitrary: m) (simp_all add: min_step_def)

lemma fold_max_step_skip_null:
  "fold max_step (filter (\<lambda>v. v \<noteq> Null) vs) m = fold max_step vs m"
  by (induction vs arbitrary: m) (simp_all add: max_step_def)

lemma doubles_skip_null:
  "doubles cast (filter (\<lambda>v. v \<noteq> Null) vs) = doubles cast vs"
proof (induction vs)
  case Nil
  show ?case by simp
next
  case (Cons v vs)
  then show ?case by (cases v) (simp_all add: doubles_def List.map_filter_def)
qed

lemma agg_stats_skip_null:
  "agg_stats cast attr (filter (\<lambda>r. r attr \<noteq> Null) rs) = agg_stats cast attr rs"
proof -
  have m: "map (\<lambda>r. r attr) (filter (\<lambda>r. r attr \<noteq> Null) rs)
             = filter (\<lambda>v. v \<noteq> Null) (map (\<lambda>r. r attr) rs)"
    by (simp add: filter_map comp_def)
  show ?thesis
    by (simp add: agg_stats_def Let_def m spark_min_def spark_max_def fold_min_step_skip_null
        fold_max_step_skip_null doubles_skip_null)
qed

lemma sum_insert_group:
  fixes f :: "group_row \<Rightarrow> nat"
  shows "sum_list (map f (insert_group x ys)) = f x + sum_list (map f ys)"
  by (induction ys) simp_all

lemma sum_order_by:
  fixes f :: "group_row \<Rightarrow> nat"
  shows "sum_list (map f (order_by gs)) = sum_list (map f gs)"
  by (induction gs) (simp_all add: order_by_def sum_insert_group)

lemma set_insert_group: "set (insert_group x ys) = insert x (set ys)"
  by (induction ys) auto

lemma set_order_by: "set (order_by gs) = set gs"
  by (induction gs) (simp_all add: order_by_def set_insert_group)

lemma sum_indicator_distinct:
  assumes "distinct ks" and "k \<in> set ks"
  shows "(\<Sum>j\<leftarrow>ks. if k = j then 1 else 0) = (1::nat)"
  using assms by (induction ks) auto

lemma sum_partition_sizes:
  assumes "distinct ks" and "f ` set rs \<subseteq> set ks"
  shows "(\<Sum>k\<leftarrow>ks. length (filter (\<lambda>r. f r = k) rs)) = length rs"
  using assms(2)
proof (induction rs)
  case Nil
  show ?case by simp
next
  case (Cons r rs)
  then have mem: "f r \<in> set ks" and sub: "f ` set rs \<subseteq> set ks" by auto
  have "(\<Sum>k\<leftarrow>ks. length (filter (\<lambda>r. f r = k) (r # rs)))
          = (\<Sum>k\<leftarrow>ks. (if f r = k then 1 else 0) + length (filter (\<lambda>r. f r = k) rs))"
    by (rule arg_cong [where f = sum_list]) simp
  also have "\<dots> = (\<Sum>k\<leftarrow>ks. if f r = k then 1 else 0) + (\<Sum>k\<leftarrow>ks. length (filter (\<lambda>r. f r = k) rs))"
    by (simp add: sum_list_addf)
  also have "\<dots> = 1 + length rs"
    using sum_indicator_distinct [OF assms(1) mem] Cons.IH [OF sub] by simp
  finally show ?case by simp
qed

lemma g_count_extend [simp]: "g_count (stats.extend st (group_row.fields k n)) = n"
  by (simp add: stats.defs group_row.defs)

lemma g_key_extend [simp]: "g_key (stats.extend st (group_row.fields k n)) = k"
  by (simp add: stats.defs group_row.defs)

lemma sum_group_counts:
  "sum_list (map g_count (group_agg cast g attr rs)) = length rs"
proof -
  have "sum_list (map g_count (group_agg cast g attr rs))
          = (\<Sum>k\<leftarrow>group_keys g rs. length (filter (\<lambda>r. r g = k) rs))"
    by (simp add: group_agg_def Let_def comp_def)
  also have "\<dots> = length rs"
    by (rule sum_partition_sizes) (auto simp: group_keys_def)
  finally show ?thesis .
qed

lemma group_agg_row:
  assumes "x \<in> set (group_agg cast g attr rs)"
  shows "x = stats.extend (agg_stats cast attr (filter (\<lambda>r. r g = g_key x \<and> r attr \<noteq> Null) rs))
               (group_row.fields (g_key x) (length (filter (\<lambda>r. r g = g_key x) rs)))"
proof -
  from assms obtain k where
    x: "x = stats.extend (agg_stats cast attr (filter (\<lambda>r. r g = k) rs))
              (group_row.fields k (length (filter (\<lambda>r. r g = k) rs)))"
    by (auto simp: group_agg_def Let_def)
  then have k: "g_key x = k" by simp
  have "filter (\<lambda>r. r g = k \<and> r attr \<noteq> Null) rs
          = filter (\<lambda>r. r attr \<noteq> Null) (filter (\<lambda>r. r g = k) rs)"
    by (simp add: conj_commute)
  then have "agg_stats cast attr (filter (\<lambda>r. r g = k \<and> r attr \<noteq> Null) rs)
               = agg_stats cast attr (filter (\<lambda>r. r g = k) rs)"
    by (simp only: agg_stats_skip_null)
  with x k show ?thesis by simp
qed

text \<open>
  C3 (as the code has it). A filtered row whose attribute is NULL is counted, and it is
  left out of \<^verbatim>\<open>min\<close>, \<^verbatim>\<open>max\<close>, \<^verbatim>\<open>avg\<close> and \<^verbatim>\<open>stddev\<close>: the count of
  filter mode is the number of filtered rows, the count of a group is the number of its
  rows, and the four statistics are those of the rows with a non-NULL attribute. The
  counts of the groups that \<^verbatim>\<open>mode_group\<close> computes (it shows the first 50) add up to
  the number of filtered rows, the count of filter mode.
\<close>

theorem null_rows_counted_not_aggregated:
  assumes "apply_filters cast df a = Inr df'" and "attribute a \<in> set (columns df)"
    and "rows df' \<noteq> []"
  shows "(\<exists>fs'. mode_filter cast fs df a =
            Inr (fs', FilterReport (length (rows df'))
                   (Some (agg_stats cast (attribute a)
                            (filter (\<lambda>r. r (attribute a) \<noteq> Null) (rows df')))))) \<and>
         (group_by a = Some g \<and> g \<noteq> [] \<and> g \<in> set (columns df) \<and> g \<notin> set agg_names \<longrightarrow>
            (\<exists>fs'. mode_group cast fs df a =
               Inr (fs', GroupReport
                      (take 50 (order_by (group_agg cast g (attribute a) (rows df'))))))) \<and>
         sum_list (map g_count (order_by (group_agg cast g (attribute a) (rows df'))))
           = length (rows df') \<and>
         (\<forall>x \<in> set (order_by (group_agg cast g (attribute a) (rows df'))).
            x = stats.extend
                  (agg_stats cast (attribute a)
                     (filter (\<lambda>r. r g = g_key x \<and> r (attribute a) \<noteq> Null) (rows df')))
                  (group_row.fields (g_key x)
                     (length (filter (\<lambda>r. r g = g_key x) (rows df')))))"
proof -
  from assms(1) have c: "columns df' = columns df" by (rule apply_filters_columns)
  have f: "\<exists>fs'. mode_filter cast fs df a =
            Inr (fs', FilterReport (length (rows df'))
                   (Some (agg_stats cast (attribute a)
                            (filter (\<lambda>r. r (attribute a) \<noteq> Null) (rows df')))))"
    using assms c by (simp add: mode_filter_def agg_stats_skip_null)
  have s: "sum_list (map g_count (order_by (group_agg cast g (attribute a) (rows df'))))
             = length (rows df')"
    by (simp add: sum_order_by sum_group_counts)
  have r: "\<forall>x \<in> set (order_by (group_agg cast g (attribute a) (rows df'))).
            x = stats.extend
                  (agg_stats cast (attribute a)
                     (filter (\<lambda>r. r g = g_key x \<and> r (attribute a) \<noteq> Null) (rows df')))
                  (group_row.fields (g_key x)
                     (length (filter (\<lambda>r. r g = g_key x) (rows df'))))"
    using group_agg_row by (auto simp: set_order_by)
  have m: "group_by a = Some g \<and> g \<noteq> [] \<and> g \<in> set (columns df) \<and> g \<notin> set agg_names \<longrightarrow>
            (\<exists>fs'. mode_group cast fs df a =
               Inr (fs', GroupReport
                      (take 50 (order_by (group_agg cast g (attribute a) (rows df'))))))"
    using assms c by (simp add: mode_group_def resolve_group_def Let_def)
  from f m s r show ?thesis by blast
qed

theorem null_rows_counted_not_aggregated_witness:
  "sum_list (map g_count (order_by (group_agg no_number ''zone'' ''amt'' (rows null_table))))
     = length (rows null_table) \<and>
   length (rows null_table) = 4"
proof -
  have f: "apply_filters no_number null_table no_args = Inr null_table"
    by (simp add: filter_defs no_args_def)
  from null_rows_counted_not_aggregated [OF f, of "stored null_table" "''zone''"]
  show ?thesis
    by (simp add: no_args_def null_table_def columns_def)
qed

text \<open>
  C3 as the specification states it fails for the count: in filter mode over the table
  with the NULL amount the count is 4, the row with the NULL amount included, while the
  statistics are those of the three amounts.
\<close>

theorem null_row_counted_counterexample:
  "main no_number (stored null_table) no_args
     = Inr (stored null_table, FilterReport 4
         (Some \<lparr>s_min = Num 5, s_max = Num 20, s_avg = Some (35 / 3),
                s_stddev = Some (sqrt (175 / 3))\<rparr>))"
  by (simp add: run_defs example_defs)

end
